theory Spec2Isabelle
  imports Complex_Main
begin

section \<open>Tokens and the token source\<close>

text \<open>
  Modelled from the spec: the token kinds of package \<open>scanner\<close>, which is not among the
  source files. The constructors are the kinds that \<open>expr.go\<close> names, the white-space and
  end-of-input kinds of the spec's token source adapter, \<open>ILLEGAL\<close> for the zero token
  (the tag of the dummy root in \<open>ParseExpr\<close>), and \<open>KEYWORD\<close> for every kind the
  expression parser does not name.
\<close>

datatype Token =
    ILLEGAL | EOF | WS
  | IDENT | NAMEDPARAM | POSITIONALPARAM | NUMBER | INTEGER | DURATION | STRING
  | TRUE | FALSE | NULL
  | ADD | SUB | MUL | DIV | MOD | BITWISEAND | BITWISEOR | BITWISEXOR
  | AND | OR | EQ | NEQ | LT | LTE | GT | GTE | IN | IS
  | LPAREN | RPAREN | LBRACKET | RBRACKET | LSBRACKET | RSBRACKET
  | COMMA | COLON | DOT | AS | CAST
  | TYPEBYTES | TYPESTRING | TYPEBOOL | TYPEINT8 | TYPEINT16 | TYPEINT32 | TYPEINT64
  | TYPEINT | TYPEINTEGER | TYPEFLOAT64 | TYPENUMERIC | TYPETEXT | TYPEDURATION
  | KEYWORD string

type_synonym Pos = "nat \<times> nat"

record TokenInfo =
  Tok :: Token
  Pos :: Pos
  Lit :: string
  Raw :: string

definition eofToken :: TokenInfo where
  "eofToken = \<lparr>Tok = EOF, Pos = (0, 0), Lit = [], Raw = []\<rparr>"

text \<open>
  The parser object: \<open>src\<close> and \<open>rd\<close> stand for the buffered scanner \<open>p.s\<close> (the tokens
  of the input, and how many of them have been read and not pushed back); the two
  parameter counters and the capture buffer \<open>p.buf\<close> (\<open>None\<close> is Go's nil) are the fields
  that \<open>expr.go\<close> reads and writes. The counters are Go ints; they grow by one per
  parameter token, so they are modelled unbounded.
\<close>

record Parser =
  src :: "TokenInfo list"
  rd :: nat
  orderedParams :: nat
  namedParams :: nat
  buf :: "string option"

text \<open>
  Modelled from the spec: the token source adapter (\<open>Scan\<close>, \<open>Unscan\<close>,
  \<open>ScanIgnoreWhitespace\<close> of \<open>parser.go\<close>, not among the source files). Section 4.1:
  \<open>scan\<close> returns the next token, which may be white space; \<open>unscan\<close> pushes the most
  recent token back; \<open>scan_skip_ws\<close> returns the next token that is not white space;
  while capture is enabled every consumed lexeme is mirrored into the capture buffer, so
  that the buffer holds the raw bytes of the accepted tokens. Past the last token the
  scanner keeps answering \<open>EOF\<close>.
\<close>

definition tokenAt :: "Parser \<Rightarrow> nat \<Rightarrow> TokenInfo" where
  "tokenAt p k = (if k < length (src p) then src p ! k else eofToken)"

definition Scan :: "Parser \<Rightarrow> (Token \<times> Pos \<times> string) \<times> Parser" where
  "Scan p =
     (let ti = tokenAt p (rd p) in
      ((Tok ti, Pos ti, Lit ti),
       p\<lparr>rd := rd p + 1, buf := map_option (\<lambda>b. b @ Raw ti) (buf p)\<rparr>))"

definition Unscan :: "Parser \<Rightarrow> Parser" where
  "Unscan p =
     (let ti = tokenAt p (rd p - 1) in
      p\<lparr>rd := rd p - 1,
        buf := map_option (\<lambda>b. take (length b - length (Raw ti)) b) (buf p)\<rparr>)"

function ScanIgnoreWhitespace :: "Parser \<Rightarrow> (Token \<times> Pos \<times> string) \<times> Parser" where
  "ScanIgnoreWhitespace p =
     (case Scan p of
        ((tok, pos, lit), p') \<Rightarrow>
          if tok = WS then ScanIgnoreWhitespace p' else ((tok, pos, lit), p'))"
  by pat_completeness auto
termination
  by (relation "measure (\<lambda>p. length (src p) - rd p)")
     (auto simp: Scan_def Let_def tokenAt_def eofToken_def split: if_splits)

declare ScanIgnoreWhitespace.simps [simp del]

section \<open>Expressions and errors\<close>

text \<open>
  Modelled from the spec: \<open>Token.IsOperator\<close> and \<open>Token.Precedence\<close> of package
  \<open>scanner\<close>. Section 3 lists the eighteen operator kinds; section 4.3 gives the six
  precedence tiers, highest first. The climbing loop of \<open>ParseExpr\<close> descends while the
  tree's operator has a smaller number than the new one, so a larger number binds
  tighter; every other token has the precedence 0 of the dummy root's tag.
\<close>

definition IsOperator :: "Token \<Rightarrow> bool" where
  "IsOperator tok \<longleftrightarrow>
     tok \<in> set [EQ, NEQ, LT, LTE, GT, GTE, AND, OR, ADD, SUB, MUL, DIV, MOD,
                 BITWISEAND, BITWISEOR, BITWISEXOR, IN, IS]"

definition Precedence :: "Token \<Rightarrow> nat" where
  "Precedence tok =
     (if tok \<in> set [MUL, DIV, MOD] then 6
      else if tok \<in> set [ADD, SUB] then 5
      else if tok \<in> set [BITWISEAND, BITWISEOR, BITWISEXOR] then 4
      else if tok \<in> set [EQ, NEQ, LT, LTE, GT, GTE, IN, IS] then 3
      else if tok = AND then 2
      else if tok = OR then 1
      else 0)"

text \<open>
  The target types of a cast, \<open>document.ValueType\<close>, with \<open>NoType\<close> for its zero value.
  Package \<open>expr\<close> has literals of the same names, so \<open>document.TextValue\<close> is written
  \<open>TextType\<close> here, and the others likewise.
\<close>

datatype ValueType =
    NoType | BlobType | TextType | BoolType | Int8Type | Int16Type | Int32Type
  | Int64Type | Float64Type | DurationType

text \<open>
  A finite 64-bit float is kept as its sign and the rational number that is its
  magnitude, so that minus zero stays apart from zero.
\<close>

datatype float64 = Float64 (negative: bool) (magnitude: rat)

text \<open>
  Modelled from the spec: the expression nodes of package \<open>expr\<close> (section 3). An
  operator node carries the token of its operator and two children; \<open>NilExpr\<close> is Go's
  nil interface value.
\<close>

datatype Expr =
    NilExpr
  | IntValue int
  | Float64Value float64
  | TextValue string
  | BoolValue bool
  | NullValue
  | DurationValue int
  | FieldSelector "string list"
  | KVPairs "(string \<times> Expr) list"
  | LiteralExprList "Expr list"
  | NamedParam string
  | PositionalParam nat
  | Operator Token Expr Expr
  | PKFunc
  | Cast Expr ValueType

definition Eq :: "Expr \<Rightarrow> Expr \<Rightarrow> Expr" where "Eq a b = Operator EQ a b"
definition Neq :: "Expr \<Rightarrow> Expr \<Rightarrow> Expr" where "Neq a b = Operator NEQ a b"
definition Gt :: "Expr \<Rightarrow> Expr \<Rightarrow> Expr" where "Gt a b = Operator GT a b"
definition Gte :: "Expr \<Rightarrow> Expr \<Rightarrow> Expr" where "Gte a b = Operator GTE a b"
definition Lt :: "Expr \<Rightarrow> Expr \<Rightarrow> Expr" where "Lt a b = Operator LT a b"
definition Lte :: "Expr \<Rightarrow> Expr \<Rightarrow> Expr" where "Lte a b = Operator LTE a b"
definition And :: "Expr \<Rightarrow> Expr \<Rightarrow> Expr" where "And a b = Operator AND a b"
definition Or :: "Expr \<Rightarrow> Expr \<Rightarrow> Expr" where "Or a b = Operator OR a b"
definition Add :: "Expr \<Rightarrow> Expr \<Rightarrow> Expr" where "Add a b = Operator ADD a b"
definition Sub :: "Expr \<Rightarrow> Expr \<Rightarrow> Expr" where "Sub a b = Operator SUB a b"
definition Mul :: "Expr \<Rightarrow> Expr \<Rightarrow> Expr" where "Mul a b = Operator MUL a b"
definition Div :: "Expr \<Rightarrow> Expr \<Rightarrow> Expr" where "Div a b = Operator DIV a b"
definition Mod :: "Expr \<Rightarrow> Expr \<Rightarrow> Expr" where "Mod a b = Operator MOD a b"
definition BitwiseAnd :: "Expr \<Rightarrow> Expr \<Rightarrow> Expr" where
  "BitwiseAnd a b = Operator BITWISEAND a b"
definition BitwiseOr :: "Expr \<Rightarrow> Expr \<Rightarrow> Expr" where
  "BitwiseOr a b = Operator BITWISEOR a b"
definition BitwiseXor :: "Expr \<Rightarrow> Expr \<Rightarrow> Expr" where
  "BitwiseXor a b = Operator BITWISEXOR a b"
definition In :: "Expr \<Rightarrow> Expr \<Rightarrow> Expr" where "In a b = Operator IN a b"
definition Is :: "Expr \<Rightarrow> Expr \<Rightarrow> Expr" where "Is a b = Operator IS a b"

text \<open>
  Modelled from the spec: \<open>ParseError\<close> and \<open>newParseError\<close> of \<open>parser.go\<close>, and the text
  that \<open>scanner.Tokstr\<close> and \<open>Token.String\<close> render (section 7: a message, optionally a
  position, and an expected-versus-found fragment). The rendering of a token is not
  described, so an error keeps the token and lexeme that would be rendered.
\<close>

datatype found = NoFound | Tokstr Token string | Lexeme string

datatype expected = Text string | TokenString Token

datatype error =
    ParseError (Message: string) (Found: found) (Expected: "expected list") (ErrPos: Pos)
  | FuncError string

definition newParseError :: "found \<Rightarrow> expected list \<Rightarrow> Pos \<Rightarrow> error" where
  "newParseError fnd want pos = ParseError [] fnd want pos"

definition messageError :: "string \<Rightarrow> Pos \<Rightarrow> error" where
  "messageError msg pos = ParseError msg NoFound [] pos"

text \<open>
  What a call leaves behind: a value, an error, or a Go panic. Every parser function
  also returns the parser, because a caller that discards an error carries on from the
  state the failed call left.
\<close>

datatype panic = UnknownOperator Token | OutOfRange

datatype 'a res = Ok 'a | Err error | Panic panic

text \<open>
  Modelled from the spec: \<open>expr.GetFunc\<close>, the function registry (section 4.7). The only
  function the spec names is \<open>pk()\<close>, which resolves to the primary-key node; any other
  name or arity is a resolution error.
\<close>

definition GetFunc :: "string \<Rightarrow> Expr list \<Rightarrow> error + Expr" where
  "GetFunc fname args =
     (if fname = ''pk'' then
        (if args = [] then Inr PKFunc else Inl (FuncError ''pk() takes no arguments''))
      else Inl (FuncError ''no such function''))"

section \<open>The Go library functions that the parser calls\<close>

definition isDigit :: "char \<Rightarrow> bool" where
  "isDigit c \<longleftrightarrow> 48 \<le> (of_char c :: nat) \<and> (of_char c :: nat) \<le> 57"

definition digitVal :: "char \<Rightarrow> nat" where
  "digitVal c = of_char c - 48"

definition decimal :: "string \<Rightarrow> nat" where
  "decimal ds = foldl (\<lambda>a c. 10 * a + digitVal c) 0 ds"

definition stripSign :: "string \<Rightarrow> bool \<times> string" where
  "stripSign s =
     (case s of
        [] \<Rightarrow> (False, [])
      | c # cs \<Rightarrow>
          if c = CHR ''-'' then (True, cs)
          else if c = CHR ''+'' then (False, cs)
          else (False, s))"

text \<open>
  \<open>strconv.Atoi\<close> where Go's \<open>int\<close> has 64 bits: an optional sign and one or more decimal
  digits; \<open>None\<close> is the syntax error or the range error.
\<close>

definition Atoi :: "string \<Rightarrow> int option" where
  "Atoi s =
     (case stripSign s of
        (neg, ds) \<Rightarrow>
          if ds = [] \<or> \<not> list_all isDigit ds then None
          else
            (let v = (if neg then - int (decimal ds) else int (decimal ds)) in
             if v < - (2 ^ 63) \<or> 2 ^ 63 - 1 < v then None else Some v))"

fun bitLength :: "nat \<Rightarrow> nat" where
  "bitLength n = (if n = 0 then 0 else Suc (bitLength (n div 2)))"

declare bitLength.simps [simp del]

definition pow2 :: "int \<Rightarrow> rat" where
  "pow2 k = (if 0 \<le> k then 2 ^ nat k else 1 / 2 ^ nat (- k))"

text \<open>The exponent \<open>e\<close> with \<open>2 ^ e \<le> x < 2 ^ (e + 1)\<close>, for a positive \<open>x\<close>.\<close>

definition floorLog2 :: "rat \<Rightarrow> int" where
  "floorLog2 x =
     (if 1 \<le> x then int (bitLength (nat \<lfloor>x\<rfloor>)) - 1
      else - int (bitLength (nat (\<lceil>1 / x\<rceil> - 1))))"

text \<open>
  Rounding a non-negative rational to the nearest 64-bit float, ties to even: 53
  significant bits, and no unit in the last place below \<open>2 ^ -1074\<close>. The result may be
  \<open>2 ^ 1024\<close> or more, which is the overflow that the caller reports.
\<close>

definition roundFloat64 :: "rat \<Rightarrow> rat" where
  "roundFloat64 x =
     (if x \<le> 0 then 0
      else
        (let k = max (floorLog2 x - 52) (- 1074);
             m = x / pow2 k;
             n = \<lfloor>m\<rfloor>;
             r = m - of_int n;
             n' = (if 1 / 2 < r \<or> (r = 1 / 2 \<and> odd n) then n + 1 else n)
         in of_int n' * pow2 k))"

text \<open>
  \<open>strconv.ParseFloat(lit, 64)\<close> on decimal lexemes: an optional sign, digits with at
  most one point and at least one digit, and an optional exponent of at least one digit.
  \<open>None\<close> is the syntax error or the range error of a value that rounds past the largest
  float. The other spellings that \<open>strconv\<close> reads (hexadecimal mantissas, underscores,
  infinities, NaN) are not decimal lexemes and are rejected here.
\<close>

definition ParseFloat :: "string \<Rightarrow> float64 option" where
  "ParseFloat s =
     (case stripSign s of
        (neg, s0) \<Rightarrow>
          (let ip = takeWhile isDigit s0;
               s1 = dropWhile isDigit s0;
               dot = (s1 \<noteq> [] \<and> hd s1 = CHR ''.'');
               fp = (if dot then takeWhile isDigit (tl s1) else []);
               s2 = (if dot then dropWhile isDigit (tl s1) else s1);
               hasExp = (s2 \<noteq> [] \<and> (hd s2 = CHR ''e'' \<or> hd s2 = CHR ''E''));
               es = (if hasExp then stripSign (tl s2) else (False, []));
               ed = snd es
           in
             if ip = [] \<and> fp = [] then None
             else if hasExp \<and> (ed = [] \<or> \<not> list_all isDigit ed) then None
             else if \<not> hasExp \<and> s2 \<noteq> [] then None
             else
               (let mant = of_nat (decimal (ip @ fp)) :: rat;
                    ex = (if fst es then - int (decimal ed) else int (decimal ed))
                           - int (length fp);
                    x = (if 0 \<le> ex then mant * 10 ^ nat ex else mant / 10 ^ nat (- ex));
                    y = roundFloat64 x
                in if 2 ^ 1024 \<le> y then None else Some (Float64 neg y))))"

text \<open>
  \<open>time.ParseDuration\<close>: an optional sign, then one or more segments of digits with an
  optional fraction and a unit; the result is in nanoseconds and must fit 64 bits. The
  fraction of a segment is rounded down exactly, where Go multiplies in floating point.
\<close>

definition unitMap :: "string \<Rightarrow> nat option" where
  "unitMap u =
     (if u = ''ns'' then Some 1
      else if u = ''us'' then Some 1000
      else if u = [CHR 0xC2, CHR 0xB5, CHR ''s''] then Some 1000
      else if u = [CHR 0xCE, CHR 0xBC, CHR ''s''] then Some 1000
      else if u = ''ms'' then Some 1000000
      else if u = ''s'' then Some 1000000000
      else if u = ''m'' then Some 60000000000
      else if u = ''h'' then Some 3600000000000
      else None)"

definition unitChar :: "char \<Rightarrow> bool" where
  "unitChar c \<longleftrightarrow> c \<noteq> CHR ''.'' \<and> \<not> isDigit c"

function durationSegments :: "string \<Rightarrow> nat \<Rightarrow> nat option" where
  "durationSegments s d =
     (if s = [] then Some d
      else
        (let ip = takeWhile isDigit s;
             s1 = dropWhile isDigit s;
             dot = (s1 \<noteq> [] \<and> hd s1 = CHR ''.'');
             fp = (if dot then takeWhile isDigit (tl s1) else []);
             s2 = (if dot then dropWhile isDigit (tl s1) else s1);
             u = takeWhile unitChar s2
         in
           if ip = [] \<and> fp = [] then None
           else if u = [] then None
           else
             (case unitMap u of
                None \<Rightarrow> None
              | Some unit \<Rightarrow>
                  (let d' = d + decimal ip * unit + (decimal fp * unit) div 10 ^ length fp in
                   if 2 ^ 63 < d' then None
                   else durationSegments (dropWhile unitChar s2) d'))))"
  by pat_completeness auto
termination
proof (relation "measure (\<lambda>(s, d). length s)", simp, goal_cases)
  case (1 s d ip s1 dot fp s2 u unit d')
  have drop_lt: "length (dropWhile P xs) < length xs" if "takeWhile P xs \<noteq> []"
    for P and xs :: string
    using that by (cases xs) (auto simp: le_imp_less_Suc length_dropWhile_le split: if_splits)
  have a: "length s1 \<le> length s"
    unfolding 1 by (rule length_dropWhile_le)
  have "length (tl s1) \<le> length s1" by simp
  then have "length (dropWhile isDigit (tl s1)) \<le> length s1"
    by (rule order_trans [OF length_dropWhile_le])
  then have b: "length s2 \<le> length s1"
    unfolding \<open>s2 = _\<close> by simp
  have "length (dropWhile unitChar s2) < length s2"
    using 1 by (intro drop_lt) simp
  with a b show ?case by simp
qed

declare durationSegments.simps [simp del]

definition ParseDuration :: "string \<Rightarrow> int option" where
  "ParseDuration s =
     (case stripSign s of
        (neg, s0) \<Rightarrow>
          if s0 = ''0'' then Some 0
          else if s0 = [] then None
          else
            (case durationSegments s0 0 of
               None \<Rightarrow> None
             | Some d \<Rightarrow>
                 if neg then Some (- int d)
                 else if 2 ^ 63 - 1 < d then None
                 else Some (int d)))"

text \<open>
  \<open>strings.TrimSpace\<close> on the white space of ASCII (tab, line feed, vertical tab, form
  feed, carriage return, space).
\<close>

definition isSpace :: "char \<Rightarrow> bool" where
  "isSpace c \<longleftrightarrow> c \<in> set [CHR 0x09, CHR 0x0A, CHR 0x0B, CHR 0x0C, CHR 0x0D, CHR '' '']"

definition TrimSpace :: "string \<Rightarrow> string" where
  "TrimSpace s = rev (dropWhile isSpace (rev (dropWhile isSpace s)))"

section \<open>The expression parser\<close>

definition bufString :: "Parser \<Rightarrow> string" where
  "bufString p = (case buf p of None \<Rightarrow> ''<nil>'' | Some b \<Rightarrow> b)"

definition opToExpr :: "Token \<Rightarrow> Expr \<Rightarrow> Expr \<Rightarrow> panic + Expr" where
  "opToExpr op lhs rhs =
     (if op = EQ then Inr (Eq lhs rhs)
      else if op = NEQ then Inr (Neq lhs rhs)
      else if op = GT then Inr (Gt lhs rhs)
      else if op = GTE then Inr (Gte lhs rhs)
      else if op = LT then Inr (Lt lhs rhs)
      else if op = LTE then Inr (Lte lhs rhs)
      else if op = AND then Inr (And lhs rhs)
      else if op = OR then Inr (Or lhs rhs)
      else if op = ADD then Inr (Add lhs rhs)
      else if op = SUB then Inr (Sub lhs rhs)
      else if op = MUL then Inr (Mul lhs rhs)
      else if op = DIV then Inr (Div lhs rhs)
      else if op = MOD then Inr (Mod lhs rhs)
      else if op = BITWISEAND then Inr (BitwiseAnd lhs rhs)
      else if op = BITWISEOR then Inr (BitwiseOr lhs rhs)
      else if op = BITWISEXOR then Inr (BitwiseXor lhs rhs)
      else if op = IN then Inr (In lhs rhs)
      else if op = IS then Inr (Is lhs rhs)
      else Inl (UnknownOperator op))"

text \<open>
  The inner loop of \<open>ParseExpr\<close>. The Go code walks down from the dummy root and
  overwrites the right-hand child of the node where it stops; \<open>climb op rhs e\<close> is the
  right-hand child of a node whose right-hand child was \<open>e\<close>, after that walk. Only
  operator nodes implement the \<open>operator\<close> interface.
\<close>

fun climb :: "Token \<Rightarrow> Expr \<Rightarrow> Expr \<Rightarrow> panic + Expr" where
  "climb op rhs (Operator t l r) =
     (if Precedence t \<ge> Precedence op then opToExpr op (Operator t l r) rhs
      else (case climb op rhs r of Inl pn \<Rightarrow> Inl pn | Inr r' \<Rightarrow> Inr (Operator t l r')))"
| "climb op rhs e = opToExpr op e rhs"

definition parseIdent :: "Parser \<Rightarrow> string res \<times> Parser" where
  "parseIdent p =
     (case ScanIgnoreWhitespace p of
        ((tok, pos, lit), p1) \<Rightarrow>
          if tok \<noteq> IDENT then (Err (newParseError (Tokstr tok lit) [Text ''identifier''] pos), p1)
          else (Ok lit, p1))"

definition parseType :: "Parser \<Rightarrow> ValueType \<times> Parser" where
  "parseType p =
     (case ScanIgnoreWhitespace p of
        ((tok, pos, lit), p1) \<Rightarrow>
          if tok = TYPEBYTES then (BlobType, p1)
          else if tok = TYPESTRING then (TextType, p1)
          else if tok = TYPEBOOL then (BoolType, p1)
          else if tok = TYPEINT8 then (Int8Type, p1)
          else if tok = TYPEINT16 then (Int16Type, p1)
          else if tok = TYPEINT32 then (Int32Type, p1)
          else if tok = TYPEINT64 \<or> tok = TYPEINT \<or> tok = TYPEINTEGER then (Int64Type, p1)
          else if tok = TYPEFLOAT64 \<or> tok = TYPENUMERIC then (Float64Type, p1)
          else if tok = TYPETEXT then (TextType, p1)
          else if tok = TYPEDURATION then (DurationType, p1)
          else (NoType, Unscan p1))"

text \<open>
  The loop of \<open>parseFieldRef\<close>. Indexing the empty lexeme of a \<open>NUMBER\<close> token is the
  run-time panic of \<open>lit[0]\<close>.
\<close>

function parseFieldRef_loop :: "string list \<Rightarrow> Parser \<Rightarrow> string list res \<times> Parser" where
  "parseFieldRef_loop fieldRef p =
     (case Scan p of
        ((tok, pos, lit), p1) \<Rightarrow>
          if tok = DOT then
            (case Scan p1 of
               ((tok2, pos2, lit2), p2) \<Rightarrow>
                 if tok2 \<noteq> IDENT then
                   (Err (newParseError (Lexeme lit2)
                           [Text ''array index'', Text ''identifier''] pos2), p2)
                 else parseFieldRef_loop (fieldRef @ [lit2]) p2)
          else if tok = NUMBER then
            (if lit = [] then (Panic OutOfRange, p1)
             else if hd lit \<noteq> CHR ''.'' then (Ok fieldRef, Unscan p1)
             else parseFieldRef_loop (fieldRef @ [tl lit]) p1)
          else (Ok fieldRef, Unscan p1))"
  by pat_completeness auto
termination
  by (relation "measure (\<lambda>(f, p). length (src p) - rd p)")
     (auto simp: Scan_def Let_def tokenAt_def eofToken_def split: if_splits)

declare parseFieldRef_loop.simps [simp del]

definition parseFieldRef :: "Parser \<Rightarrow> string list res \<times> Parser" where
  "parseFieldRef p =
     (case parseIdent p of
        (Ok chunk, p1) \<Rightarrow> parseFieldRef_loop [chunk] p1
      | (Err e, p1) \<Rightarrow> (Err e, p1)
      | (Panic pn, p1) \<Rightarrow> (Panic pn, p1))"

definition mixedParams :: error where
  "mixedParams = messageError ''can't mix positional arguments with named arguments'' (0, 0)"

definition ofGetFunc :: "error + Expr \<Rightarrow> Expr res" where
  "ofGetFunc r = (case r of Inl e \<Rightarrow> Err e | Inr f \<Rightarrow> Ok f)"

text \<open>
  The mutually recursive parser functions. The first argument bounds the depth of calls
  and the number of loop rounds; \<open>None\<close> means that the bound was reached before the
  call returned. \<open>ParseExpr\<close> enables the capture buffer when it is the outermost call
  and disables it again on return (the deferred function). \<open>parseDocument\<close> returns an
  expression and whether a document was found; with an error it returns just the error.
\<close>

function (sequential) ParseExpr :: "nat \<Rightarrow> Parser \<Rightarrow> ((Expr \<times> string) res \<times> Parser) option"
  and ParseExpr_loop :: "nat \<Rightarrow> Expr \<Rightarrow> Parser \<Rightarrow> ((Expr \<times> string) res \<times> Parser) option"
  and parseUnaryExpr :: "nat \<Rightarrow> Parser \<Rightarrow> (Expr res \<times> Parser) option"
  and parseDocument :: "nat \<Rightarrow> Parser \<Rightarrow> ((Expr \<times> bool) res \<times> Parser) option"
  and parseDocument_loop ::
    "nat \<Rightarrow> (string \<times> Expr) list \<Rightarrow> Parser \<Rightarrow> ((string \<times> Expr) list res \<times> Parser) option"
  and parseKV :: "nat \<Rightarrow> Parser \<Rightarrow> ((string \<times> Expr) res \<times> Parser) option"
  and parseExprList :: "nat \<Rightarrow> Token \<Rightarrow> Token \<Rightarrow> Parser \<Rightarrow> (Expr list res \<times> Parser) option"
  and parseExprList_loop :: "nat \<Rightarrow> Expr list \<Rightarrow> Parser \<Rightarrow> (Expr list res \<times> Parser) option"
  and parseFunction :: "nat \<Rightarrow> Parser \<Rightarrow> (Expr res \<times> Parser) option"
  and parseFunction_loop ::
    "nat \<Rightarrow> string \<Rightarrow> Expr list \<Rightarrow> Parser \<Rightarrow> (Expr res \<times> Parser) option"
  and parseCastExpression :: "nat \<Rightarrow> Parser \<Rightarrow> (Expr res \<times> Parser) option"
where
  "ParseExpr 0 p = None"
| "ParseExpr (Suc n) p =
     (let own = (buf p = None);
          p0 = (if own then p\<lparr>buf := Some []\<rparr> else p);
          finish = (\<lambda>q. if own then q\<lparr>buf := None\<rparr> else q)
      in
        case parseUnaryExpr n p0 of
          None \<Rightarrow> None
        | Some (Err e, p1) \<Rightarrow> Some (Err e, finish p1)
        | Some (Panic pn, p1) \<Rightarrow> Some (Panic pn, finish p1)
        | Some (Ok e, p1) \<Rightarrow>
            (case ParseExpr_loop n e p1 of
               None \<Rightarrow> None
             | Some (r, p2) \<Rightarrow> Some (r, finish p2)))"
| "ParseExpr_loop 0 rootRhs p = None"
| "ParseExpr_loop (Suc n) rootRhs p =
     (case ScanIgnoreWhitespace p of
        ((op, pos, lit), p1) \<Rightarrow>
          if \<not> IsOperator op then
            (let p2 = Unscan p1 in Some (Ok (rootRhs, TrimSpace (bufString p2)), p2))
          else
            (case parseUnaryExpr n p1 of
               None \<Rightarrow> None
             | Some (Err e, p2) \<Rightarrow> Some (Err e, p2)
             | Some (Panic pn, p2) \<Rightarrow> Some (Panic pn, p2)
             | Some (Ok rhs, p2) \<Rightarrow>
                 (case climb op rhs rootRhs of
                    Inl pn \<Rightarrow> Some (Panic pn, p2)
                  | Inr rootRhs' \<Rightarrow> ParseExpr_loop n rootRhs' p2)))"
| "parseUnaryExpr 0 p = None"
| "parseUnaryExpr (Suc n) p =
     (case ScanIgnoreWhitespace p of
        ((tok, pos, lit), p1) \<Rightarrow>
          if tok = CAST then parseCastExpression n (Unscan p1)
          else if tok = IDENT then
            (case Scan p1 of
               ((tok1, pos1, lit1), p2) \<Rightarrow>
                 if tok1 = LPAREN then parseFunction n (Unscan (Unscan p2))
                 else
                   (case parseFieldRef (Unscan (Unscan p2)) of
                      (Err e, p3) \<Rightarrow> Some (Err e, p3)
                    | (Panic pn, p3) \<Rightarrow> Some (Panic pn, p3)
                    | (Ok field, p3) \<Rightarrow> Some (Ok (FieldSelector field), p3)))
          else if tok = NAMEDPARAM then
            (if length lit = 1 then Some (Err (messageError ''missing param name'' (0, 0)), p1)
             else if orderedParams p1 > 0 then Some (Err mixedParams, p1)
             else if lit = [] then Some (Panic OutOfRange, p1\<lparr>namedParams := namedParams p1 + 1\<rparr>)
             else Some (Ok (NamedParam (tl lit)), p1\<lparr>namedParams := namedParams p1 + 1\<rparr>))
          else if tok = POSITIONALPARAM then
            (if namedParams p1 > 0 then Some (Err mixedParams, p1)
             else
               (let p2 = p1\<lparr>orderedParams := orderedParams p1 + 1\<rparr>
                in Some (Ok (PositionalParam (orderedParams p2)), p2)))
          else if tok = STRING then Some (Ok (TextValue lit), p1)
          else if tok = NUMBER then
            (case ParseFloat lit of
               None \<Rightarrow> Some (Err (messageError ''unable to parse number'' pos), p1)
             | Some v \<Rightarrow> Some (Ok (Float64Value v), p1))
          else if tok = INTEGER then
            (case Atoi lit of
               None \<Rightarrow>
                 (case ParseFloat lit of
                    Some v \<Rightarrow> Some (Ok (Float64Value v), p1)
                  | None \<Rightarrow> Some (Err (messageError ''unable to parse integer'' pos), p1))
             | Some v \<Rightarrow> Some (Ok (IntValue v), p1))
          else if tok = TRUE \<or> tok = FALSE then Some (Ok (BoolValue (tok = TRUE)), p1)
          else if tok = NULL then Some (Ok NullValue, p1)
          else if tok = DURATION then
            (case ParseDuration lit of
               None \<Rightarrow> Some (Err (messageError ''unable to parse duration'' pos), p1)
             | Some d \<Rightarrow> Some (Ok (DurationValue d), p1))
          else if tok = LBRACKET then
            (case parseDocument n (Unscan p1) of
               None \<Rightarrow> None
             | Some (Err e, p2) \<Rightarrow> Some (Err e, p2)
             | Some (Panic pn, p2) \<Rightarrow> Some (Panic pn, p2)
             | Some (Ok (e, found), p2) \<Rightarrow> Some (Ok e, p2))
          else if tok = LSBRACKET then
            (case parseExprList n LSBRACKET RSBRACKET (Unscan p1) of
               None \<Rightarrow> None
             | Some (Err e, p2) \<Rightarrow> Some (Err e, p2)
             | Some (Panic pn, p2) \<Rightarrow> Some (Panic pn, p2)
             | Some (Ok es, p2) \<Rightarrow> Some (Ok (LiteralExprList es), p2))
          else if tok = LPAREN then
            (case parseExprList n LPAREN RPAREN (Unscan p1) of
               None \<Rightarrow> None
             | Some (Err e, p2) \<Rightarrow> Some (Err e, p2)
             | Some (Panic pn, p2) \<Rightarrow> Some (Panic pn, p2)
             | Some (Ok es, p2) \<Rightarrow> Some (Ok (LiteralExprList es), p2))
          else
            Some (Err (newParseError (Tokstr tok lit)
                         [Text ''identifier'', Text ''string'', Text ''number'', Text ''bool'']
                         pos), p1))"
| "parseDocument 0 p = None"
| "parseDocument (Suc n) p =
     (case ScanIgnoreWhitespace p of
        ((tok, pos, lit), p1) \<Rightarrow>
          if tok \<noteq> LBRACKET then Some (Ok (NilExpr, False), Unscan p1)
          else
            (case parseDocument_loop n [] p1 of
               None \<Rightarrow> None
             | Some (Err e, p2) \<Rightarrow> Some (Err e, p2)
             | Some (Panic pn, p2) \<Rightarrow> Some (Panic pn, p2)
             | Some (Ok pairs, p2) \<Rightarrow>
                 (case ScanIgnoreWhitespace p2 of
                    ((tok2, pos2, lit2), p3) \<Rightarrow>
                      if tok2 \<noteq> RBRACKET then
                        Some (Err (newParseError (Tokstr tok2 lit2) [Text ''}''] pos2), p3)
                      else Some (Ok (KVPairs pairs, True), p3))))"
| "parseDocument_loop 0 pairs p = None"
| "parseDocument_loop (Suc n) pairs p =
     (case parseKV n p of
        None \<Rightarrow> None
      | Some (Err e, p1) \<Rightarrow> Some (Ok pairs, Unscan p1)
      | Some (Panic pn, p1) \<Rightarrow> Some (Panic pn, p1)
      | Some (Ok pair, p1) \<Rightarrow>
          (case ScanIgnoreWhitespace p1 of
             ((tok, pos, lit), p2) \<Rightarrow>
               if tok \<noteq> COMMA then Some (Ok (pairs @ [pair]), Unscan p2)
               else parseDocument_loop n (pairs @ [pair]) p2))"
| "parseKV 0 p = None"
| "parseKV (Suc n) p =
     (case ScanIgnoreWhitespace p of
        ((tok, pos, lit), p1) \<Rightarrow>
          if tok = IDENT \<or> tok = STRING then
            (case ScanIgnoreWhitespace p1 of
               ((tok2, pos2, lit2), p2) \<Rightarrow>
                 if tok2 \<noteq> COLON then
                   Some (Err (newParseError (Tokstr tok2 lit2) [Text '':''] pos2), Unscan p2)
                 else
                   (case ParseExpr n p2 of
                      None \<Rightarrow> None
                    | Some (Err e, p3) \<Rightarrow> Some (Err e, p3)
                    | Some (Panic pn, p3) \<Rightarrow> Some (Panic pn, p3)
                    | Some (Ok (e, l), p3) \<Rightarrow> Some (Ok (lit, e), p3)))
          else
            Some (Err (newParseError (Tokstr tok lit) [Text ''ident'', Text ''string''] pos),
                  p1))"
| "parseExprList 0 leftToken rightToken p = None"
| "parseExprList (Suc n) leftToken rightToken p =
     (case ScanIgnoreWhitespace p of
        ((tok, pos, lit), p1) \<Rightarrow>
          if tok \<noteq> leftToken then
            Some (Err (newParseError (Tokstr tok lit) [TokenString leftToken] pos), p1)
          else
            (case parseExprList_loop n [] p1 of
               None \<Rightarrow> None
             | Some (Err e, p2) \<Rightarrow> Some (Err e, p2)
             | Some (Panic pn, p2) \<Rightarrow> Some (Panic pn, p2)
             | Some (Ok exprList, p2) \<Rightarrow>
                 (case ScanIgnoreWhitespace p2 of
                    ((tok2, pos2, lit2), p3) \<Rightarrow>
                      if tok2 \<noteq> rightToken then
                        Some (Err (newParseError (Tokstr tok2 lit2) [TokenString rightToken]
                                     pos2), p3)
                      else Some (Ok exprList, p3))))"
| "parseExprList_loop 0 exprList p = None"
| "parseExprList_loop (Suc n) exprList p =
     (case ParseExpr n p of
        None \<Rightarrow> None
      | Some (Err e, p1) \<Rightarrow> Some (Ok exprList, Unscan p1)
      | Some (Panic pn, p1) \<Rightarrow> Some (Panic pn, p1)
      | Some (Ok (e, l), p1) \<Rightarrow>
          (case ScanIgnoreWhitespace p1 of
             ((tok, pos, lit), p2) \<Rightarrow>
               if tok \<noteq> COMMA then Some (Ok (exprList @ [e]), Unscan p2)
               else parseExprList_loop n (exprList @ [e]) p2))"
| "parseFunction 0 p = None"
| "parseFunction (Suc n) p =
     (case parseIdent p of
        (Err e, p1) \<Rightarrow> Some (Err e, p1)
      | (Panic pn, p1) \<Rightarrow> Some (Panic pn, p1)
      | (Ok fname, p1) \<Rightarrow>
          (case ScanIgnoreWhitespace p1 of
             ((tok, pos, lit), p2) \<Rightarrow>
               if tok \<noteq> LPAREN then
                 Some (Err (newParseError (Tokstr tok lit) [Text ''(''] pos), p2)
               else
                 (case ScanIgnoreWhitespace p2 of
                    ((tok2, pos2, lit2), p3) \<Rightarrow>
                      if tok2 = RPAREN then Some (ofGetFunc (GetFunc fname []), p3)
                      else parseFunction_loop n fname [] (Unscan p3))))"
| "parseFunction_loop 0 fname exprs p = None"
| "parseFunction_loop (Suc n) fname exprs p =
     (case ParseExpr n p of
        None \<Rightarrow> None
      | Some (Err e, p1) \<Rightarrow> Some (Err e, p1)
      | Some (Panic pn, p1) \<Rightarrow> Some (Panic pn, p1)
      | Some (Ok (e, l), p1) \<Rightarrow>
          (case ScanIgnoreWhitespace p1 of
             ((tok, pos, lit), p2) \<Rightarrow>
               if tok \<noteq> COMMA then Some (ofGetFunc (GetFunc fname (exprs @ [e])), Unscan p2)
               else parseFunction_loop n fname (exprs @ [e]) p2))"
| "parseCastExpression 0 p = None"
| "parseCastExpression (Suc n) p =
     (case ScanIgnoreWhitespace p of
        ((tok, pos, lit), p1) \<Rightarrow>
          if tok \<noteq> CAST then Some (Err (newParseError (Tokstr tok lit) [Text ''CAST''] pos), p1)
          else
            (case ScanIgnoreWhitespace p1 of
               ((tok2, pos2, lit2), p2) \<Rightarrow>
                 if tok2 \<noteq> LPAREN then
                   Some (Err (newParseError (Tokstr tok2 lit2) [Text ''(''] pos2), p2)
                 else
                   (case ParseExpr n p2 of
                      None \<Rightarrow> None
                    | Some (Err e, p3) \<Rightarrow> Some (Err e, p3)
                    | Some (Panic pn, p3) \<Rightarrow> Some (Panic pn, p3)
                    | Some (Ok (e, l), p3) \<Rightarrow>
                        (case ScanIgnoreWhitespace p3 of
                           ((tok3, pos3, lit3), p4) \<Rightarrow>
                             if tok3 \<noteq> AS then
                               Some (Err (newParseError (Tokstr tok3 lit3) [Text ''AS''] pos3),
                                     p4)
                             else
                               (case parseType p4 of
                                  (tp, p5) \<Rightarrow>
                                    (case ScanIgnoreWhitespace p5 of
                                       ((tok4, pos4, lit4), p6) \<Rightarrow>
                                         if tp = NoType then
                                           Some (Err (newParseError (Tokstr tok4 lit4)
                                                        [Text ''type''] pos4), Unscan p6)
                                         else if tok4 \<noteq> RPAREN then
                                           Some (Err (newParseError (Tokstr tok4 lit4)
                                                        [Text '')''] pos4), p6)
                                         else Some (Ok (Cast e tp), p6)))))))"

  by pat_completeness auto
termination
  by (relation "measure (case_sum (case_sum (case_sum fst fst) (case_sum fst (case_sum fst fst)))
                          (case_sum (case_sum fst (case_sum fst fst))
                                    (case_sum fst (case_sum fst fst))))")
     simp_all

declare ParseExpr.simps [simp del] ParseExpr_loop.simps [simp del]
  parseUnaryExpr.simps [simp del] parseDocument.simps [simp del]
  parseDocument_loop.simps [simp del] parseKV.simps [simp del]
  parseExprList.simps [simp del] parseExprList_loop.simps [simp del]
  parseFunction.simps [simp del] parseFunction_loop.simps [simp del]
  parseCastExpression.simps [simp del]

text \<open>
  Modelled from the spec: \<open>NewParser\<close> of \<open>parser.go\<close>. A fresh parser has read nothing,
  has seen no parameter and captures nothing (section 5: parsing a fresh input
  constructs a fresh parser).
\<close>

definition NewParser :: "TokenInfo list \<Rightarrow> Parser" where
  "NewParser toks = \<lparr>src = toks, rd = 0, orderedParams = 0, namedParams = 0, buf = None\<rparr>"

text \<open>A token whose raw text is its lexeme, and a quoted string token.\<close>

definition tk :: "Token \<Rightarrow> string \<Rightarrow> TokenInfo" where
  "tk t l = \<lparr>Tok = t, Pos = (0, 0), Lit = l, Raw = l\<rparr>"

definition sp :: TokenInfo where
  "sp = tk WS '' ''"

section \<open>Definitions used to state the properties\<close>

text \<open>A loop result with the pairs or elements collected before the loop put in front.\<close>

definition withPrefix :: "'a list \<Rightarrow> ('a list res \<times> Parser) option \<Rightarrow> ('a list res \<times> Parser) option" where
  "withPrefix xs r = (case r of Some (Ok ys, q) \<Rightarrow> Some (Ok (xs @ ys), q) | _ \<Rightarrow> r)"

text \<open>The tokens of the document \<open>{a: 1, a: 2, "a": 3}\<close>.\<close>

definition documentTokens :: "TokenInfo list" where
  "documentTokens =
     [tk LBRACKET ''{'', tk IDENT ''a'', tk COLON '':'', sp, tk INTEGER ''1'', tk COMMA '','', sp,
      tk IDENT ''a'', tk COLON '':'', sp, tk INTEGER ''2'', tk COMMA '','', sp,
      \<lparr>Tok = STRING, Pos = (0, 0), Lit = ''a'', Raw = [CHR 0x22, CHR ''a'', CHR 0x22]\<rparr>,
      tk COLON '':'', sp, tk INTEGER ''3'', tk RBRACKET ''}'']"

text \<open>The integer that a sign and a string of decimal digits denote.\<close>

definition signedValue :: "bool \<Rightarrow> string \<Rightarrow> int" where
  "signedValue neg ds = (if neg then - int (decimal ds) else int (decimal ds))"

section \<open>The token source\<close>

lemma Unscan_Scan: "Unscan (snd (Scan p)) = p"
  by (cases "buf p") (simp_all add: Scan_def Unscan_def Let_def tokenAt_def)

lemma Scan_src: "Scan p = (t, q) \<Longrightarrow> src q = src p"
  by (auto simp: Scan_def Let_def)

lemma ScanIgnoreWhitespace_unfold:
  "ScanIgnoreWhitespace p =
     (if fst (fst (Scan p)) = WS then ScanIgnoreWhitespace (snd (Scan p)) else Scan p)"
  by (subst ScanIgnoreWhitespace.simps) (auto split: prod.splits)

lemma ScanIgnoreWhitespace_induct [case_names step]:
  assumes "\<And>p. (fst (fst (Scan p)) = WS \<Longrightarrow> P (snd (Scan p))) \<Longrightarrow> P p"
  shows "P p"
proof (induction p rule: ScanIgnoreWhitespace.induct)
  case (1 p)
  show ?case
  proof (rule assms)
    assume w: "fst (fst (Scan p)) = WS"
    show "P (snd (Scan p))"
      by (rule 1 [of "fst (Scan p)" "snd (Scan p)" "fst (fst (Scan p))" "snd (fst (Scan p))"
            "fst (snd (fst (Scan p)))" "snd (snd (fst (Scan p)))"])
         (simp_all add: w [symmetric])
  qed
qed

lemma ScanIgnoreWhitespace_not_WS': "fst (fst (ScanIgnoreWhitespace p)) \<noteq> WS"
  by (induction p rule: ScanIgnoreWhitespace_induct)
     (subst ScanIgnoreWhitespace_unfold, simp)

lemma ScanIgnoreWhitespace_not_WS:
  "ScanIgnoreWhitespace p = ((tok, pos, lit), q) \<Longrightarrow> tok \<noteq> WS"
  using ScanIgnoreWhitespace_not_WS' [of p] by simp

lemma ScanIgnoreWhitespace_Unscan':
  "ScanIgnoreWhitespace (Unscan (snd (ScanIgnoreWhitespace p))) = ScanIgnoreWhitespace p"
proof (induction p rule: ScanIgnoreWhitespace_induct)
  case (step p)
  show ?case
  proof (cases "fst (fst (Scan p)) = WS")
    case True
    with step show ?thesis by (simp add: ScanIgnoreWhitespace_unfold [of p])
  next
    case False
    then have "ScanIgnoreWhitespace p = Scan p"
      by (simp add: ScanIgnoreWhitespace_unfold [of p])
    then show ?thesis by (simp add: Unscan_Scan)
  qed
qed

lemma ScanIgnoreWhitespace_Unscan:
  "ScanIgnoreWhitespace p = (t, q) \<Longrightarrow> ScanIgnoreWhitespace (Unscan q) = (t, q)"
  using ScanIgnoreWhitespace_Unscan' [of p] by simp

section \<open>Field references\<close>

text \<open>
  C6: after its first identifier, \<open>parseFieldRef\<close> appends one segment per dotted step. A
  \<open>DOT\<close> token must be followed by an identifier, whose lexeme is appended, and anything
  else after the dot is an error; a \<open>NUMBER\<close> token whose lexeme begins with a dot is
  appended without its dot; any other token is pushed back and ends the path. So the
  tokens of \<open>CAST(a.b.1.0 AS TEXT)\<close> parse to a cast of the path a, b, 1, 0 to text.
\<close>

theorem parseFieldRef_segments:
  "(Scan p = ((DOT, pos, lit), p1) \<longrightarrow> Scan p1 = ((IDENT, pos2, lit2), p2) \<longrightarrow>
      parseFieldRef_loop fieldRef p = parseFieldRef_loop (fieldRef @ [lit2]) p2)
   \<and> (Scan p = ((DOT, pos, lit), p1) \<longrightarrow> Scan p1 = ((tok2, pos2, lit2), p2) \<longrightarrow> tok2 \<noteq> IDENT \<longrightarrow>
      parseFieldRef_loop fieldRef p =
        (Err (newParseError (Lexeme lit2) [Text ''array index'', Text ''identifier''] pos2), p2))
   \<and> (Scan p = ((NUMBER, pos, CHR ''.'' # rest), p1) \<longrightarrow>
      parseFieldRef_loop fieldRef p = parseFieldRef_loop (fieldRef @ [rest]) p1)
   \<and> (Scan p = ((tok, pos, lit), p1) \<longrightarrow> tok \<noteq> DOT \<longrightarrow> tok \<noteq> NUMBER \<longrightarrow>
      parseFieldRef_loop fieldRef p = (Ok fieldRef, Unscan p1))
   \<and> ParseExpr 20 (NewParser [tk CAST ''CAST'', tk LPAREN ''('', tk IDENT ''a'', tk DOT ''.'',
          tk IDENT ''b'', tk NUMBER ''.1'', tk NUMBER ''.0'', sp, tk AS ''AS'', sp,
          tk TYPETEXT ''TEXT'', tk RPAREN '')''])
       = Some (Ok (Cast (FieldSelector [''a'', ''b'', ''1'', ''0'']) TextType,
                   ''CAST(a.b.1.0 AS TEXT)''),
               (NewParser [tk CAST ''CAST'', tk LPAREN ''('', tk IDENT ''a'', tk DOT ''.'',
          tk IDENT ''b'', tk NUMBER ''.1'', tk NUMBER ''.0'', sp, tk AS ''AS'', sp,
          tk TYPETEXT ''TEXT'', tk RPAREN '')''])\<lparr>rd := 12\<rparr>)"
proof (intro conjI impI)
  show "ParseExpr 20 (NewParser [tk CAST ''CAST'', tk LPAREN ''('', tk IDENT ''a'', tk DOT ''.'',
          tk IDENT ''b'', tk NUMBER ''.1'', tk NUMBER ''.0'', sp, tk AS ''AS'', sp,
          tk TYPETEXT ''TEXT'', tk RPAREN '')''])
       = Some (Ok (Cast (FieldSelector [''a'', ''b'', ''1'', ''0'']) TextType,
                   ''CAST(a.b.1.0 AS TEXT)''),
               (NewParser [tk CAST ''CAST'', tk LPAREN ''('', tk IDENT ''a'', tk DOT ''.'',
          tk IDENT ''b'', tk NUMBER ''.1'', tk NUMBER ''.0'', sp, tk AS ''AS'', sp,
          tk TYPETEXT ''TEXT'', tk RPAREN '')''])\<lparr>rd := 12\<rparr>)"
    by code_simp
qed (subst parseFieldRef_loop.simps, simp)+

theorem parseFieldRef_segments_witness:
  "parseFieldRef_loop [''a''] (NewParser [tk DOT ''.'', tk IDENT ''b'', tk NUMBER ''.1''])
     = (Ok [''a'', ''b'', ''1''], (NewParser [tk DOT ''.'', tk IDENT ''b'', tk NUMBER ''.1''])\<lparr>rd := 3\<rparr>)"
proof -
  let ?p = "NewParser [tk DOT ''.'', tk IDENT ''b'', tk NUMBER ''.1'']"
  have a: "Scan ?p = ((DOT, (0, 0), ''.''), ?p\<lparr>rd := 1\<rparr>)"
    by (simp add: Scan_def NewParser_def tk_def tokenAt_def)
  have b: "Scan (?p\<lparr>rd := 1\<rparr>) = ((IDENT, (0, 0), ''b''), ?p\<lparr>rd := 2\<rparr>)"
    by (simp add: Scan_def NewParser_def tk_def tokenAt_def)
  have c: "Scan (?p\<lparr>rd := 2\<rparr>) = ((NUMBER, (0, 0), CHR ''.'' # ''1''), ?p\<lparr>rd := 3\<rparr>)"
    by (simp add: Scan_def NewParser_def tk_def tokenAt_def)
  have d: "Scan (?p\<lparr>rd := 3\<rparr>) = ((EOF, (0, 0), []), ?p\<lparr>rd := 4\<rparr>)"
    by (simp add: Scan_def NewParser_def tk_def tokenAt_def eofToken_def)
  have e: "Unscan (?p\<lparr>rd := 4\<rparr>) = ?p\<lparr>rd := 3\<rparr>"
    by (simp add: Unscan_def NewParser_def tk_def tokenAt_def eofToken_def)
  note t = parseFieldRef_segments
  from t [of ?p "(0,0)" "''.''" "?p\<lparr>rd := 1\<rparr>" "(0,0)" "''b''" "?p\<lparr>rd := 2\<rparr>" "[''a'']"] a b
  have 1: "parseFieldRef_loop [''a''] ?p = parseFieldRef_loop [''a'', ''b''] (?p\<lparr>rd := 2\<rparr>)"
    by simp
  from t [where p = "?p\<lparr>rd := 2\<rparr>" and rest = "''1''" and fieldRef = "[''a'', ''b'']"] c
  have 2: "parseFieldRef_loop [''a'', ''b''] (?p\<lparr>rd := 2\<rparr>) = parseFieldRef_loop [''a'', ''b'', ''1''] (?p\<lparr>rd := 3\<rparr>)"
    by simp
  from t [where p = "?p\<lparr>rd := 3\<rparr>" and tok = EOF and fieldRef = "[''a'', ''b'', ''1'']"] d e
  have 3: "parseFieldRef_loop [''a'', ''b'', ''1''] (?p\<lparr>rd := 3\<rparr>) = (Ok [''a'', ''b'', ''1''], ?p\<lparr>rd := 3\<rparr>)"
    by simp
  from 1 2 3 show ?thesis by simp
qed

section \<open>Document literals\<close>

lemma withPrefix_simps [simp]:
  "withPrefix xs None = None"
  "withPrefix xs (Some (Ok ys, q)) = Some (Ok (xs @ ys), q)"
  "withPrefix xs (Some (Err e, q)) = Some (Err e, q)"
  "withPrefix xs (Some (Panic pn, q)) = Some (Panic pn, q)"
  by (simp_all add: withPrefix_def)

lemma withPrefix_withPrefix: "withPrefix xs (withPrefix ys r) = withPrefix (xs @ ys) r"
  by (auto simp: withPrefix_def split: option.splits res.splits prod.splits)

lemma withPrefix_Nil: "withPrefix [] r = r"
  by (auto simp: withPrefix_def split: option.splits res.splits prod.splits)

lemma parseDocument_loop_acc:
  "parseDocument_loop n pairs p = withPrefix pairs (parseDocument_loop n [] p)"
proof (induction n arbitrary: pairs p)
  case 0
  show ?case by (simp add: parseDocument_loop.simps)
next
  case (Suc n)
  have a: "parseDocument_loop n (pairs @ [pair]) q = withPrefix pairs (parseDocument_loop n [pair] q)" for pair q
    using Suc [of "pairs @ [pair]" q] Suc [of "[pair]" q] by (simp add: withPrefix_withPrefix)
  show ?case
    by (simp add: parseDocument_loop.simps a split: option.splits res.splits prod.splits)
qed

text \<open>
  C7: a document literal keeps every key-value pair in source order, duplicates
  included. The loop of \<open>parseDocument\<close> only ever appends to the pairs it has collected:
  its result is those pairs followed by what the loop yields from an empty start, and a
  parsed pair is appended whatever its key and whatever was collected before. The tokens
  of \<open>{a: 1, a: 2, "a": 3}\<close> give three pairs with key a and the values 1, 2, 3.
\<close>

theorem parseDocument_keeps_pairs:
  "parseDocument_loop n pairs p = withPrefix pairs (parseDocument_loop n [] p)
   \<and> (parseKV n p = Some (Ok pair, p1) \<longrightarrow>
        parseDocument_loop (Suc n) pairs p =
          withPrefix (pairs @ [pair])
            (case ScanIgnoreWhitespace p1 of
               ((tok, pos, lit), p2) \<Rightarrow>
                 if tok \<noteq> COMMA then Some (Ok [], Unscan p2) else parseDocument_loop n [] p2))
   \<and> map_option fst (ParseExpr 20 (NewParser documentTokens)) =
        Some (Ok (KVPairs [(''a'', IntValue 1), (''a'', IntValue 2), (''a'', IntValue 3)],
                  [CHR ''{'', CHR ''a'', CHR '':'', CHR '' '', CHR ''1'', CHR '','', CHR '' '',
                   CHR ''a'', CHR '':'', CHR '' '', CHR ''2'', CHR '','', CHR '' '',
                   CHR 0x22, CHR ''a'', CHR 0x22, CHR '':'', CHR '' '', CHR ''3'', CHR ''}'']))"
proof (intro conjI impI)
  show "parseDocument_loop n pairs p = withPrefix pairs (parseDocument_loop n [] p)"
    by (rule parseDocument_loop_acc)
next
  assume kv: "parseKV n p = Some (Ok pair, p1)"
  obtain tok pos lit p2 where s: "ScanIgnoreWhitespace p1 = ((tok, pos, lit), p2)"
    by (metis prod_cases3 surj_pair)
  show "parseDocument_loop (Suc n) pairs p =
          withPrefix (pairs @ [pair])
            (case ScanIgnoreWhitespace p1 of
               ((tok, pos, lit), p2) \<Rightarrow>
                 if tok \<noteq> COMMA then Some (Ok [], Unscan p2) else parseDocument_loop n [] p2)"
    using parseDocument_loop_acc [of n "pairs @ [pair]" p2]
    by (simp add: parseDocument_loop.simps kv s)
next
  show "map_option fst (ParseExpr 20 (NewParser documentTokens)) =
        Some (Ok (KVPairs [(''a'', IntValue 1), (''a'', IntValue 2), (''a'', IntValue 3)],
                  [CHR ''{'', CHR ''a'', CHR '':'', CHR '' '', CHR ''1'', CHR '','', CHR '' '',
                   CHR ''a'', CHR '':'', CHR '' '', CHR ''2'', CHR '','', CHR '' '',
                   CHR 0x22, CHR ''a'', CHR 0x22, CHR '':'', CHR '' '', CHR ''3'', CHR ''}'']))"
    by code_simp
qed

theorem parseDocument_keeps_pairs_witness:
  "parseKV 3 (NewParser [tk IDENT ''a'', tk COLON '':'', tk INTEGER ''3'', tk RBRACKET ''}''])
     = Some (Ok (''a'', IntValue 3),
             (NewParser [tk IDENT ''a'', tk COLON '':'', tk INTEGER ''3'', tk RBRACKET ''}''])\<lparr>rd := 3\<rparr>)
   \<and> parseDocument_loop 4 [(''a'', IntValue 1)]
         (NewParser [tk IDENT ''a'', tk COLON '':'', tk INTEGER ''3'', tk RBRACKET ''}''])
     = Some (Ok [(''a'', IntValue 1), (''a'', IntValue 3)],
             (NewParser [tk IDENT ''a'', tk COLON '':'', tk INTEGER ''3'', tk RBRACKET ''}''])\<lparr>rd := 3\<rparr>)"
proof -
  let ?p = "NewParser [tk IDENT ''a'', tk COLON '':'', tk INTEGER ''3'', tk RBRACKET ''}'']"
  have kv: "parseKV 3 ?p = Some (Ok (''a'', IntValue 3), ?p\<lparr>rd := 3\<rparr>)"
    by code_simp
  have sc: "(case ScanIgnoreWhitespace (?p\<lparr>rd := 3\<rparr>) of
               ((tok, pos, lit), p2) \<Rightarrow>
                 if tok \<noteq> COMMA then Some (Ok [], Unscan p2) else parseDocument_loop 3 [] p2)
            = Some (Ok [], ?p\<lparr>rd := 3\<rparr>)"
    by code_simp
  have "parseDocument_loop (Suc 3) [(''a'', IntValue 1)] ?p
          = Some (Ok [(''a'', IntValue 1), (''a'', IntValue 3)], ?p\<lparr>rd := 3\<rparr>)"
    using parseDocument_keeps_pairs [of 3 "[(''a'', IntValue 1)]" ?p "(''a'', IntValue 3)" "?p\<lparr>rd := 3\<rparr>"]
    unfolding sc using kv by simp
  then show ?thesis using kv by simp
qed

section \<open>Integer literals\<close>

lemma Atoi_digits:
  assumes "stripSign lit = (neg, ds)" "ds \<noteq> []" "list_all isDigit ds"
  shows "Atoi lit =
           (if - (2 ^ 63) \<le> signedValue neg ds \<and> signedValue neg ds \<le> 2 ^ 63 - 1
            then Some (signedValue neg ds) else None)"
  using assms by (auto simp: Atoi_def signedValue_def Let_def)

lemma ParseFloat_digits:
  assumes "stripSign lit = (neg, ds)" "ds \<noteq> []" "list_all isDigit ds"
  shows "ParseFloat lit =
           (if roundFloat64 (of_nat (decimal ds)) < 2 ^ 1024
            then Some (Float64 neg (roundFloat64 (of_nat (decimal ds)))) else None)"
proof -
  have t: "takeWhile isDigit ds = ds" and d: "dropWhile isDigit ds = []"
    using assms(3) by (simp_all add: list_all_iff)
  have z: "decimal [] = 0" by (simp add: decimal_def)
  show ?thesis
    using assms(2) by (simp add: ParseFloat_def assms(1) t d z Let_def not_le)
qed

lemma parseUnaryExpr_INTEGER_digits:
  assumes "ScanIgnoreWhitespace p = ((INTEGER, pos, lit), p1)"
    and "stripSign lit = (neg, ds)" "ds \<noteq> []" "list_all isDigit ds"
  shows "parseUnaryExpr (Suc n) p =
        Some (if - (2 ^ 63) \<le> signedValue neg ds \<and> signedValue neg ds \<le> 2 ^ 63 - 1
              then Ok (IntValue (signedValue neg ds))
              else if roundFloat64 (of_nat (decimal ds)) < 2 ^ 1024
              then Ok (Float64Value (Float64 neg (roundFloat64 (of_nat (decimal ds)))))
              else Err (messageError ''unable to parse integer'' pos), p1)"
  by (simp add: parseUnaryExpr.simps assms(1) Atoi_digits [OF assms(2-4)]
        ParseFloat_digits [OF assms(2-4)])

lemma Scan_first:
  "Scan ((NewParser (t # ts))\<lparr>buf := Some []\<rparr>) =
     ((Tok t, Pos t, Lit t), (NewParser (t # ts))\<lparr>rd := 1, buf := Some (Raw t)\<rparr>)"
  by (simp add: Scan_def NewParser_def tokenAt_def)

lemma ScanIgnoreWhitespace_first:
  "Tok t \<noteq> WS \<Longrightarrow>
   ScanIgnoreWhitespace ((NewParser (t # ts))\<lparr>buf := Some []\<rparr>) =
     ((Tok t, Pos t, Lit t), (NewParser (t # ts))\<lparr>rd := 1, buf := Some (Raw t)\<rparr>)"
  by (subst ScanIgnoreWhitespace_unfold) (simp add: Scan_first)

lemma ScanIgnoreWhitespace_at_end:
  "length (src p) \<le> rd p \<Longrightarrow>
   ScanIgnoreWhitespace p = ((EOF, (0, 0), []), p\<lparr>rd := rd p + 1\<rparr>)"
  by (subst ScanIgnoreWhitespace_unfold)
     (cases "buf p"; simp add: Scan_def tokenAt_def eofToken_def)

lemma Unscan_at_end:
  "length (src p) < rd p \<Longrightarrow> Unscan p = p\<lparr>rd := rd p - 1\<rparr>"
  by (cases "buf p"; simp add: Unscan_def tokenAt_def eofToken_def)

lemma ParseExpr_single_token:
  assumes "parseUnaryExpr (Suc 0) ((NewParser [t])\<lparr>buf := Some []\<rparr>) =
             Some (Ok e, (NewParser [t])\<lparr>rd := 1, buf := Some (Raw t)\<rparr>)"
  shows "map_option fst (ParseExpr (Suc (Suc 0)) (NewParser [t])) =
           Some (Ok (e, TrimSpace (Raw t)))"
proof -
  have l: "ParseExpr_loop (Suc 0) e \<lparr>src = [t], rd = 1, orderedParams = 0, namedParams = 0,
             buf = Some (Raw t)\<rparr>
           = Some (Ok (e, TrimSpace (Raw t)),
                   \<lparr>src = [t], rd = 1, orderedParams = 0, namedParams = 0,
                    buf = Some (Raw t)\<rparr>)"
    by (simp add: ParseExpr_loop.simps ScanIgnoreWhitespace_at_end Unscan_at_end
          IsOperator_def bufString_def del: One_nat_def)
  show ?thesis
    using assms by (simp add: ParseExpr.simps NewParser_def l del: One_nat_def)
qed

lemma ParseExpr_single_INTEGER:
  assumes "stripSign lit = (neg, ds)" "ds \<noteq> []" "list_all isDigit ds"
    and "(if - (2 ^ 63) \<le> signedValue neg ds \<and> signedValue neg ds \<le> 2 ^ 63 - 1
              then Ok (IntValue (signedValue neg ds))
              else if roundFloat64 (of_nat (decimal ds)) < 2 ^ 1024
              then Ok (Float64Value (Float64 neg (roundFloat64 (of_nat (decimal ds)))))
              else Err (messageError ''unable to parse integer'' (0, 0))) = Ok e"
    and "TrimSpace lit = lit"
  shows "map_option fst (ParseExpr 2 (NewParser [tk INTEGER lit])) = Some (Ok (e, lit))"
proof -
  let ?t = "tk INTEGER lit"
  have s: "ScanIgnoreWhitespace ((NewParser [?t])\<lparr>buf := Some []\<rparr>) =
     ((INTEGER, (0, 0), lit), (NewParser [?t])\<lparr>rd := 1, buf := Some (Raw ?t)\<rparr>)"
    using ScanIgnoreWhitespace_first [of ?t "[]"] by (simp add: tk_def)
  have "parseUnaryExpr (Suc 0) ((NewParser [?t])\<lparr>buf := Some []\<rparr>) =
             Some (Ok e, (NewParser [?t])\<lparr>rd := 1, buf := Some (Raw ?t)\<rparr>)"
    unfolding parseUnaryExpr_INTEGER_digits [OF s assms(1-3)] assms(4) ..
  from ParseExpr_single_token [OF this] show ?thesis
    by (simp add: tk_def assms(5) numeral_2_eq_2)
qed

lemma roundFloat64_1e19: "roundFloat64 10000000000000000000 = 10000000000000000000"
proof -
  have b: "bitLength 10000000000000000000 = 64"
    by (simp add: bitLength.simps)
  have f: "floorLog2 10000000000000000000 = 63"
    by (simp add: floorLog2_def b)
  show ?thesis
    by (simp add: roundFloat64_def f Let_def pow2_def)
qed

lemma decimal_examples:
  "decimal ''10000000000000000000'' = 10000000000000000000"
  "decimal ''9223372036854775807'' = 9223372036854775807"
  by (simp_all add: decimal_def digitVal_def)

lemma isDigit_examples:
  "list_all isDigit ''10000000000000000000''"
  "list_all isDigit ''9223372036854775807''"
  by (simp_all add: isDigit_def)

text \<open>
  C5: an \<open>INTEGER\<close> token whose lexeme is an optional sign and decimal digits. If the
  number it denotes fits a signed 64-bit integer, \<open>parseUnaryExpr\<close> returns the integer
  literal of that number; otherwise, if the number rounds to a finite 64-bit float, it
  returns the float literal of the rounded number; otherwise it fails with the message
  "unable to parse integer". The lexeme 10000000000000000000 gives the float 1e19, and
  the lexemes of 2^63 - 1 and of its negation stay integers.
\<close>

theorem parseUnaryExpr_INTEGER:
  "(ScanIgnoreWhitespace p = ((INTEGER, pos, lit), p1) \<longrightarrow>
    stripSign lit = (neg, ds) \<longrightarrow> ds \<noteq> [] \<longrightarrow> list_all isDigit ds \<longrightarrow>
      parseUnaryExpr (Suc n) p =
        Some (if - (2 ^ 63) \<le> signedValue neg ds \<and> signedValue neg ds \<le> 2 ^ 63 - 1
              then Ok (IntValue (signedValue neg ds))
              else if roundFloat64 (of_nat (decimal ds)) < 2 ^ 1024
              then Ok (Float64Value (Float64 neg (roundFloat64 (of_nat (decimal ds)))))
              else Err (messageError ''unable to parse integer'' pos), p1))
   \<and> map_option fst (ParseExpr 2 (NewParser [tk INTEGER ''10000000000000000000''])) =
       Some (Ok (Float64Value (Float64 False (10 ^ 19)), ''10000000000000000000''))
   \<and> map_option fst (ParseExpr 2 (NewParser [tk INTEGER ''9223372036854775807''])) =
       Some (Ok (IntValue (2 ^ 63 - 1), ''9223372036854775807''))
   \<and> map_option fst (ParseExpr 2 (NewParser [tk INTEGER ''-9223372036854775807''])) =
       Some (Ok (IntValue (- (2 ^ 63 - 1)), ''-9223372036854775807''))"
proof (intro conjI impI)
  assume "ScanIgnoreWhitespace p = ((INTEGER, pos, lit), p1)"
    "stripSign lit = (neg, ds)" "ds \<noteq> []" "list_all isDigit ds"
  then show "parseUnaryExpr (Suc n) p =
        Some (if - (2 ^ 63) \<le> signedValue neg ds \<and> signedValue neg ds \<le> 2 ^ 63 - 1
              then Ok (IntValue (signedValue neg ds))
              else if roundFloat64 (of_nat (decimal ds)) < 2 ^ 1024
              then Ok (Float64Value (Float64 neg (roundFloat64 (of_nat (decimal ds)))))
              else Err (messageError ''unable to parse integer'' pos), p1)"
    by (rule parseUnaryExpr_INTEGER_digits)
next
  show "map_option fst (ParseExpr 2 (NewParser [tk INTEGER ''10000000000000000000''])) =
       Some (Ok (Float64Value (Float64 False (10 ^ 19)), ''10000000000000000000''))"
    by (rule ParseExpr_single_INTEGER [where neg = False, OF _ _ isDigit_examples(1)])
       (simp_all add: stripSign_def decimal_examples signedValue_def roundFloat64_1e19
          TrimSpace_def isSpace_def)
next
  show "map_option fst (ParseExpr 2 (NewParser [tk INTEGER ''9223372036854775807''])) =
       Some (Ok (IntValue (2 ^ 63 - 1), ''9223372036854775807''))"
    by (rule ParseExpr_single_INTEGER [where neg = False, OF _ _ isDigit_examples(2)])
       (simp_all add: stripSign_def decimal_examples signedValue_def
          TrimSpace_def isSpace_def)
next
  show "map_option fst (ParseExpr 2 (NewParser [tk INTEGER ''-9223372036854775807''])) =
       Some (Ok (IntValue (- (2 ^ 63 - 1)), ''-9223372036854775807''))"
    by (rule ParseExpr_single_INTEGER [where neg = True, OF _ _ isDigit_examples(2)])
       (simp_all add: stripSign_def decimal_examples signedValue_def
          TrimSpace_def isSpace_def)
qed

theorem parseUnaryExpr_INTEGER_witness:
  "parseUnaryExpr 1 ((NewParser [tk INTEGER ''9223372036854775807''])\<lparr>buf := Some []\<rparr>) =
     Some (Ok (IntValue 9223372036854775807),
           (NewParser [tk INTEGER ''9223372036854775807''])\<lparr>rd := 1, buf := Some ''9223372036854775807''\<rparr>)"
proof -
  let ?t = "tk INTEGER ''9223372036854775807''"
  have s: "ScanIgnoreWhitespace ((NewParser [?t])\<lparr>buf := Some []\<rparr>) =
     ((INTEGER, (0, 0), ''9223372036854775807''),
      (NewParser [?t])\<lparr>rd := 1, buf := Some ''9223372036854775807''\<rparr>)"
    using ScanIgnoreWhitespace_first [of ?t "[]"] by (simp add: tk_def)
  have g: "stripSign ''9223372036854775807'' = (False, ''9223372036854775807'')"
    by (simp add: stripSign_def)
  from parseUnaryExpr_INTEGER [of "(NewParser [?t])\<lparr>buf := Some []\<rparr>" "(0, 0)"
      "''9223372036854775807''" _ False "''9223372036854775807''" 0] s g isDigit_examples(2)
  have "parseUnaryExpr (Suc 0) ((NewParser [?t])\<lparr>buf := Some []\<rparr>) =
        Some (if - (2 ^ 63) \<le> signedValue False ''9223372036854775807''
                 \<and> signedValue False ''9223372036854775807'' \<le> 2 ^ 63 - 1
              then Ok (IntValue (signedValue False ''9223372036854775807''))
              else if roundFloat64 (of_nat (decimal ''9223372036854775807'')) < 2 ^ 1024
              then Ok (Float64Value (Float64 False
                        (roundFloat64 (of_nat (decimal ''9223372036854775807'')))))
              else Err (messageError ''unable to parse integer'' (0, 0)),
              (NewParser [?t])\<lparr>rd := 1, buf := Some ''9223372036854775807''\<rparr>)"
    by blast
  then show ?thesis
    by (simp add: decimal_examples signedValue_def)
qed

end
